theory Spec2Isabelle
  imports Main "HOL-Library.Multiset"
begin

section \<open>Anonymous voice notes backend: the registry and its HTTP handlers\<close>

text \<open>
  A shallow embedding of \<^verbatim>\<open>index.js\<close>: the in-memory registry (\<^verbatim>\<open>voiceNotes\<close>,
  \<^verbatim>\<open>noteIdCounter\<close>) and the four handlers that read and write it (upload, list,
  mark-downloaded, delete). The Cloudinary client is outside the program: what it
  answers is an argument of the handler that calls it, and every call made to it is
  appended to a log kept in the state. The repository has the server in two variants;
  the one followed here streams the upload from memory (the other stages it in a
  temporary file, and has the same list, mark-downloaded and delete handlers).

  JavaScript values are modelled as follows.
  \<^item> Numbers that count (\<^verbatim>\<open>id\<close>, \<^verbatim>\<open>noteIdCounter\<close>, \<^verbatim>\<open>downloadCount\<close>, \<^verbatim>\<open>fileSize\<close>)
    are natural numbers; doubles are exact on them below \<open>2^53\<close>, which a counter that
    starts at 1 and grows by one per request stays under.
  \<^item> A time is the number of milliseconds since the epoch (an \<open>int\<close>). The record keeps
    \<^verbatim>\<open>new Date().toISOString()\<close> and the comparator of the list handler reads it back
    with \<^verbatim>\<open>new Date(timestamp)\<close>; the two are inverse to each other, so the model keeps
    the milliseconds.
  \<^item> A string is a list of code units, those that fit in a \<open>char\<close>; \<^verbatim>\<open>undefined\<close> is
    \<open>None\<close>.
  \<^item> Objects and arrays live in a store and are handled through their addresses, as
    JavaScript does: the array \<^verbatim>\<open>voiceNotes\<close> holds references to the record objects,
    \<^verbatim>\<open>find\<close> yields one of these references, and \<^verbatim>\<open>sort\<close> yields the array it was
    called on.
\<close>

subsection \<open>Records, store and state\<close>

type_synonym addr = nat

record voiceNote =
  id_note :: nat
  cloudinaryUrl :: string
  publicId :: string
  effect :: string
  timestamp :: int
  userAgent :: string
  fileSize :: nat
  duration :: "nat option"
  downloaded :: bool
  downloadCount :: nat

text \<open>A call made to the Cloudinary client: \<^verbatim>\<open>uploader.upload_stream\<close> with the
  \<^verbatim>\<open>Date.now()\<close> of its \<^verbatim>\<open>public_id\<close> and the bytes piped into it, or
  \<^verbatim>\<open>uploader.destroy\<close> with the public id it is given.\<close>

datatype cloud_call = Upload_stream int string | Destroy string

record server =
  arrays :: "addr \<rightharpoonup> addr list"
  objs :: "addr \<rightharpoonup> voiceNote"
  next_addr :: addr
  voiceNotes :: addr
  noteIdCounter :: nat
  cloud_log :: "cloud_call list"

text \<open>\<^verbatim>\<open>let voiceNotes = []; let noteIdCounter = 1;\<close> The one array of the program is
  created here, at address 0; no handler assigns the variable again.\<close>

definition init_server :: server where
  "init_server =
     \<lparr>arrays = [0 \<mapsto> []], objs = Map.empty, next_addr = 0, voiceNotes = 0,
      noteIdCounter = 1, cloud_log = []\<rparr>"

definition deref :: "server \<Rightarrow> addr \<Rightarrow> voiceNote" where
  "deref s a = the (objs s a)"

definition read_array :: "server \<Rightarrow> addr \<Rightarrow> addr list" where
  "read_array s r = the (arrays s r)"

text \<open>What an array of record references serialises to (\<^verbatim>\<open>JSON.stringify\<close>, which
  \<^verbatim>\<open>res.json\<close> applies before the handler returns): the records themselves, as they are
  in the store at that moment.\<close>

definition stringify :: "server \<Rightarrow> addr \<Rightarrow> voiceNote list" where
  "stringify s r = map (deref s) (read_array s r)"

text \<open>The registry: the records the array \<^verbatim>\<open>voiceNotes\<close> holds, in its order.\<close>

definition registry :: "server \<Rightarrow> voiceNote list" where
  "registry s = stringify s (voiceNotes s)"

subsection \<open>HTTP responses\<close>

datatype body =
    Error_body string "string option"
  | Upload_body string nat string
  | Notes_body nat "voiceNote list"
  | Message_body string

record response =
  status :: nat
  body :: body

definition json :: "body \<Rightarrow> response" where
  "json b = \<lparr>status = 200, body = b\<rparr>"

definition status_json :: "nat \<Rightarrow> body \<Rightarrow> response" where
  "status_json c b = \<lparr>status = c, body = b\<rparr>"

subsection \<open>\<^verbatim>\<open>parseInt\<close>\<close>

text \<open>The built-in of ECMAScript, called with one argument: leading white space is
  dropped, then an optional sign, then \<^verbatim>\<open>0x\<close> or \<^verbatim>\<open>0X\<close> (which makes the radix 16,
  otherwise 10); the value is that of the longest run of digits that follows, and
  \<^verbatim>\<open>NaN\<close> (here \<open>None\<close>) when there is no digit. White space is the part of
  \<^verbatim>\<open>StrWhiteSpaceChar\<close> that fits in a \<open>char\<close>.\<close>

definition StrWhiteSpaceChar :: "char \<Rightarrow> bool" where
  "StrWhiteSpaceChar c = ((of_char c :: nat) \<in> set [9, 10, 11, 12, 13, 32, 160])"

definition digit_value :: "char \<Rightarrow> nat" where
  "digit_value c =
     (let n = (of_char c :: nat) in
      if 48 \<le> n \<and> n \<le> 57 then n - 48
      else if 97 \<le> n \<and> n \<le> 122 then n - 87
      else if 65 \<le> n \<and> n \<le> 90 then n - 55
      else 36)"

definition is_digit :: "nat \<Rightarrow> char \<Rightarrow> bool" where
  "is_digit R c = (digit_value c < R)"

definition parseInt :: "string \<Rightarrow> int option" where
  "parseInt inputString =
     (let S = dropWhile StrWhiteSpaceChar inputString;
          sign = (if S \<noteq> [] \<and> hd S = CHR ''-'' then - 1 else 1 :: int);
          S1 = (if S \<noteq> [] \<and> (hd S = CHR ''+'' \<or> hd S = CHR ''-'') then tl S else S);
          hex = (2 \<le> length S1 \<and> (take 2 S1 = ''0x'' \<or> take 2 S1 = ''0X''));
          R = (if hex then 16 else 10 :: nat);
          S2 = (if hex then drop 2 S1 else S1);
          Z = takeWhile (is_digit R) S2
      in if Z = [] then None
         else Some (sign * int (foldl (\<lambda>m c. m * R + digit_value c) 0 Z)))"

definition is_alpha :: "char \<Rightarrow> bool" where
  "is_alpha c =
     (let n = (of_char c :: nat) in (65 \<le> n \<and> n \<le> 90) \<or> (97 \<le> n \<and> n \<le> 122))"

subsection \<open>Array methods\<close>

text \<open>\<^verbatim>\<open>n.id === noteId\<close>: a number equals no \<^verbatim>\<open>NaN\<close>.\<close>

definition id_is :: "server \<Rightarrow> int option \<Rightarrow> addr \<Rightarrow> bool" where
  "id_is s noteId a = (Some (int (id_note (deref s a))) = noteId)"

text \<open>\<^verbatim>\<open>Array.prototype.findIndex\<close>: the first index whose element passes, \<open>None\<close> for
  \<^verbatim>\<open>-1\<close>.\<close>

fun findIndex :: "('a \<Rightarrow> bool) \<Rightarrow> 'a list \<Rightarrow> nat option" where
  "findIndex P [] = None"
| "findIndex P (x # xs) =
     (if P x then Some 0 else map_option Suc (findIndex P xs))"

text \<open>\<^verbatim>\<open>xs.splice(i, 1)\<close>, for its effect on \<open>xs\<close>.\<close>

definition splice1 :: "nat \<Rightarrow> 'a list \<Rightarrow> 'a list" where
  "splice1 i xs = take i xs @ drop (Suc i) xs"

text \<open>\<^verbatim>\<open>Array.prototype.sort\<close> with a comparator: a stable sort, an element \<open>x\<close> staying
  in front of a later \<open>y\<close> unless \<open>cmp x y\<close> is positive.\<close>

fun sort_insert :: "('a \<Rightarrow> 'a \<Rightarrow> int) \<Rightarrow> 'a \<Rightarrow> 'a list \<Rightarrow> 'a list" where
  "sort_insert cmp x [] = [x]"
| "sort_insert cmp x (y # ys) =
     (if cmp x y \<le> 0 then x # y # ys else y # sort_insert cmp x ys)"

fun js_sort :: "('a \<Rightarrow> 'a \<Rightarrow> int) \<Rightarrow> 'a list \<Rightarrow> 'a list" where
  "js_sort cmp [] = []"
| "js_sort cmp (x # xs) = sort_insert cmp x (js_sort cmp xs)"

text \<open>\<^verbatim>\<open>(a, b) => new Date(b.timestamp) - new Date(a.timestamp)\<close>\<close>

definition newest_first :: "server \<Rightarrow> addr \<Rightarrow> addr \<Rightarrow> int" where
  "newest_first s a b = timestamp (deref s b) - timestamp (deref s a)"

subsection \<open>\<^verbatim>\<open>POST /api/upload-voice\<close>\<close>

record upload_file =
  buffer :: string

record upload_request =
  req_file :: "upload_file option"
  body_effect :: "string option"
  body_userAgent :: "string option"

text \<open>What happens to the upload: the callback of \<^verbatim>\<open>upload_stream\<close> is called with an
  error, or with a result (its \<^verbatim>\<open>secure_url\<close> and \<^verbatim>\<open>public_id\<close>), or an exception is
  thrown inside the \<^verbatim>\<open>try\<close> block before the stream is at work.\<close>

datatype upload_outcome =
    Upload_error string
  | Upload_result string string
  | Upload_threw string

text \<open>\<^verbatim>\<open>x || "unknown"\<close> and \<^verbatim>\<open>x ? x.substring(0, 100) : "unknown"\<close>: \<^verbatim>\<open>undefined\<close> and
  the empty string are falsy.\<close>

definition truthy :: "string option \<Rightarrow> bool" where
  "truthy x = (case x of None \<Rightarrow> False | Some v \<Rightarrow> v \<noteq> [])"

definition or_unknown :: "string option \<Rightarrow> string" where
  "or_unknown x = (if truthy x then the x else ''unknown'')"

definition substring_or_unknown :: "string option \<Rightarrow> string" where
  "substring_or_unknown x = (if truthy x then take 100 (the x) else ''unknown'')"

text \<open>\<^verbatim>\<open>voiceNotes.push(voiceNote)\<close>, the object literal being a new object of the
  store.\<close>

definition push_new :: "voiceNote \<Rightarrow> server \<Rightarrow> server" where
  "push_new n s =
     s\<lparr>objs := (objs s)(next_addr s \<mapsto> n),
       next_addr := Suc (next_addr s),
       arrays := (arrays s)(voiceNotes s \<mapsto> read_array s (voiceNotes s) @ [next_addr s])\<rparr>"

text \<open>The handler. \<open>now_id\<close> is the \<^verbatim>\<open>Date.now()\<close> of the public id, \<open>now\<close> the
  \<^verbatim>\<open>new Date()\<close> of the callback. A request that multer refuses (a file that is not
  audio, or one over 10 MB) does not reach it. With memory storage \<^verbatim>\<open>req.file.size\<close> is
  the length of \<^verbatim>\<open>req.file.buffer\<close>.\<close>

definition upload_voice ::
  "upload_request \<Rightarrow> int \<Rightarrow> upload_outcome \<Rightarrow> int \<Rightarrow> server \<Rightarrow> response \<times> server" where
  "upload_voice req now_id outcome now s =
     (case req_file req of
        None \<Rightarrow> (status_json 400 (Error_body ''No audio file provided'' None), s)
      | Some f \<Rightarrow>
          (case outcome of
             Upload_threw message \<Rightarrow>
               (status_json 500 (Error_body ''Upload failed'' (Some message)), s)
           | Upload_error e \<Rightarrow>
               (status_json 500 (Error_body ''Upload failed'' None),
                s\<lparr>cloud_log := cloud_log s @ [Upload_stream now_id (buffer f)]\<rparr>)
           | Upload_result secure_url public_id \<Rightarrow>
               (let s1 = s\<lparr>cloud_log := cloud_log s @ [Upload_stream now_id (buffer f)]\<rparr>;
                    voiceNote =
                      \<lparr>id_note = noteIdCounter s1,
                       cloudinaryUrl = secure_url,
                       publicId = public_id,
                       effect = or_unknown (body_effect req),
                       timestamp = now,
                       userAgent = substring_or_unknown (body_userAgent req),
                       fileSize = length (buffer f),
                       duration = None,
                       downloaded = False,
                       downloadCount = 0\<rparr>;
                    s2 = s1\<lparr>noteIdCounter := noteIdCounter s1 + 1\<rparr>;
                    s3 = push_new voiceNote s2
                in (json (Upload_body ''Voice note uploaded successfully''
                            (id_note voiceNote) secure_url), s3))))"

subsection \<open>\<^verbatim>\<open>GET /api/admin/voice-notes\<close>\<close>

text \<open>\<^verbatim>\<open>voiceNotes.sort(...)\<close>: the array is sorted where it is, and the value of the
  call is the reference to that same array. Nothing in the \<^verbatim>\<open>try\<close> block of this handler,
  or of the next one, throws on an array of records, so their \<^verbatim>\<open>catch\<close> blocks have no
  part in the model.\<close>

definition sort_voiceNotes :: "server \<Rightarrow> addr \<times> server" where
  "sort_voiceNotes s =
     (voiceNotes s,
      s\<lparr>arrays := (arrays s)(voiceNotes s \<mapsto>
            js_sort (newest_first s) (read_array s (voiceNotes s)))\<rparr>)"

definition listNotes :: "server \<Rightarrow> response \<times> server" where
  "listNotes s =
     (let (sortedNotes, s1) = sort_voiceNotes s
      in (json (Notes_body (length (read_array s1 sortedNotes)) (stringify s1 sortedNotes)),
          s1))"

subsection \<open>\<^verbatim>\<open>POST /api/admin/voice-notes/:id/downloaded\<close>\<close>

text \<open>\<^verbatim>\<open>note.downloadCount || 0\<close>: 0 is the one falsy count.\<close>

definition or_zero :: "nat \<Rightarrow> nat" where
  "or_zero c = (if c = 0 then 0 else c)"

definition markDownloaded :: "string \<Rightarrow> server \<Rightarrow> response \<times> server" where
  "markDownloaded id_param s =
     (let noteId = parseInt id_param
      in case List.find (id_is s noteId) (read_array s (voiceNotes s)) of
           None \<Rightarrow> (status_json 404 (Error_body ''Voice note not found'' None), s)
         | Some note \<Rightarrow>
             (json (Message_body ''Marked as downloaded''),
              s\<lparr>objs := (objs s)(note \<mapsto>
                   (deref s note)\<lparr>downloaded := True,
                                   downloadCount := or_zero (downloadCount (deref s note)) + 1\<rparr>)\<rparr>))"

subsection \<open>\<^verbatim>\<open>DELETE /api/admin/voice-notes/:id\<close>\<close>

text \<open>The promise of \<^verbatim>\<open>uploader.destroy\<close> is fulfilled (its value is not looked at) or
  rejected with an error, which the \<^verbatim>\<open>catch\<close> block of the handler receives.\<close>

datatype destroy_outcome = Fulfilled | Rejected string

text \<open>The handler up to its \<^verbatim>\<open>await\<close>: it answers 404, or it has found \<open>noteIndex\<close> and
  has called \<^verbatim>\<open>destroy\<close> with the public id of the record there.\<close>

definition delete_until_await :: "string \<Rightarrow> server \<Rightarrow> response + nat \<times> server" where
  "delete_until_await id_param s =
     (let noteId = parseInt id_param
      in case findIndex (id_is s noteId) (read_array s (voiceNotes s)) of
           None \<Rightarrow> Inl (status_json 404 (Error_body ''Voice note not found'' None))
         | Some noteIndex \<Rightarrow>
             (let note = read_array s (voiceNotes s) ! noteIndex
              in Inr (noteIndex,
                      s\<lparr>cloud_log := cloud_log s @ [Destroy (publicId (deref s note))]\<rparr>)))"

text \<open>The handler from its \<^verbatim>\<open>await\<close> on, in the state it finds then: the
  \<^verbatim>\<open>catch\<close> block when the promise is rejected, \<^verbatim>\<open>voiceNotes.splice(noteIndex, 1)\<close>
  when it is fulfilled.\<close>

definition delete_after_await ::
  "nat \<Rightarrow> destroy_outcome \<Rightarrow> server \<Rightarrow> response \<times> server" where
  "delete_after_await noteIndex outcome s =
     (case outcome of
        Rejected e \<Rightarrow> (status_json 500 (Error_body ''Failed to delete voice note'' None), s)
      | Fulfilled \<Rightarrow>
          (json (Message_body ''Voice note deleted successfully''),
           s\<lparr>arrays := (arrays s)(voiceNotes s \<mapsto>
                  splice1 noteIndex (read_array s (voiceNotes s)))\<rparr>))"

text \<open>The two halves one after the other, on one state: the handler in the one case
  that nothing else is served while it waits. This is not the handler in general: the
  server goes on serving requests during the \<^verbatim>\<open>await\<close>, and the second half then runs
  in the state they leave, with the index the first half found (see \<open>handle\<close> below).\<close>

definition deleteNote :: "string \<Rightarrow> destroy_outcome \<Rightarrow> server \<Rightarrow> response \<times> server" where
  "deleteNote id_param outcome s =
     (case delete_until_await id_param s of
        Inl r \<Rightarrow> (r, s)
      | Inr (noteIndex, s1) \<Rightarrow> delete_after_await noteIndex outcome s1)"

subsection \<open>What the server does, step by step\<close>

text \<open>
  The event loop runs one piece of a handler at a time, and a handler gives way only
  where it waits for the remote store. The upload, list and mark-downloaded handlers
  touch the state in one piece (the upload handler in the callback of
  \<^verbatim>\<open>upload_stream\<close>, which is where the model enters the call in the log), so each is
  one step. The delete handler is two steps with
  anything in between: \<open>Delete_begin\<close> is the handler up to its \<^verbatim>\<open>await\<close>, which sends a
  response only when it answers 404, and \<open>Delete_resume\<close> is the handler from its
  \<^verbatim>\<open>await\<close> on, with the \<open>noteIndex\<close> it holds. \<open>Delete_note\<close> is the two in a row.

  A step list in which every \<open>Delete_resume\<close> carries the index a \<open>Delete_begin\<close> before
  it has found is a run of the server. What is proved of all step lists holds of these.
\<close>

datatype request =
    Post_upload upload_request int upload_outcome int
  | Get_notes
  | Post_downloaded string
  | Delete_note string destroy_outcome
  | Delete_begin string
  | Delete_resume nat destroy_outcome

text \<open>One response sent.\<close>

fun sent :: "response \<times> server \<Rightarrow> response list \<times> server" where
  "sent (r, s) = ([r], s)"

fun handle :: "request \<Rightarrow> server \<Rightarrow> response list \<times> server" where
  "handle (Post_upload req now_id outcome now) s = sent (upload_voice req now_id outcome now s)"
| "handle Get_notes s = sent (listNotes s)"
| "handle (Post_downloaded id_param) s = sent (markDownloaded id_param s)"
| "handle (Delete_note id_param outcome) s = sent (deleteNote id_param outcome s)"
| "handle (Delete_begin id_param) s =
     (case delete_until_await id_param s of
        Inl r \<Rightarrow> ([r], s)
      | Inr (noteIndex, s1) \<Rightarrow> ([], s1))"
| "handle (Delete_resume noteIndex outcome) s = sent (delete_after_await noteIndex outcome s)"

text \<open>The steps are taken one after the other; the result is the responses sent, in
  order, and the last state.\<close>

fun run :: "request list \<Rightarrow> server \<Rightarrow> response list \<times> server" where
  "run [] s = ([], s)"
| "run (q # qs) s =
     (let (rs1, s1) = handle q s; (rs, s2) = run qs s1 in (rs1 @ rs, s2))"




subsection \<open>Sample states\<close>

text \<open>The end-to-end scenario of the specification: one submission with
  \<^verbatim>\<open>effect = "echo"\<close> that the remote store accepts.\<close>

definition echo_request :: upload_request where
  "echo_request =
     \<lparr>req_file = Some \<lparr>buffer = ''RIFF''\<rparr>, body_effect = Some ''echo'',
      body_userAgent = None\<rparr>"

definition note_a :: voiceNote where
  "note_a =
     \<lparr>id_note = 1, cloudinaryUrl = ''https://cdn/a'', publicId = ''voices/a'',
      effect = ''echo'', timestamp = 1001, userAgent = ''unknown'', fileSize = 4,
      duration = None, downloaded = False, downloadCount = 0\<rparr>"

definition one_note :: server where
  "one_note =
     snd (upload_voice echo_request 1000 (Upload_result ''https://cdn/a'' ''voices/a'') 1001
            init_server)"

text \<open>Three submissions, at times 1001 < 2001 < 3001.\<close>

definition upload_at :: "int \<Rightarrow> string \<Rightarrow> string \<Rightarrow> request" where
  "upload_at t url pid = Post_upload echo_request t (Upload_result url pid) (t + 1)"

definition note_b :: voiceNote where
  "note_b =
     \<lparr>id_note = 2, cloudinaryUrl = ''https://cdn/b'', publicId = ''voices/b'',
      effect = ''echo'', timestamp = 2001, userAgent = ''unknown'', fileSize = 4,
      duration = None, downloaded = False, downloadCount = 0\<rparr>"

definition note_c :: voiceNote where
  "note_c =
     \<lparr>id_note = 3, cloudinaryUrl = ''https://cdn/c'', publicId = ''voices/c'',
      effect = ''echo'', timestamp = 3001, userAgent = ''unknown'', fileSize = 4,
      duration = None, downloaded = False, downloadCount = 0\<rparr>"

definition three_uploads :: "request list" where
  "three_uploads =
     [upload_at 1000 ''https://cdn/a'' ''voices/a'',
      upload_at 2000 ''https://cdn/b'' ''voices/b'',
      upload_at 3000 ''https://cdn/c'' ''voices/c'']"

definition three_notes :: server where
  "three_notes = snd (run three_uploads init_server)"


text \<open>The scenario in full: the submission, a listing, a mark, a listing, the deletion, a
  listing.\<close>

definition scenario :: "request list" where
  "scenario =
     [Post_upload echo_request 1000 (Upload_result ''https://cdn/a'' ''voices/a'') 1001,
      Get_notes, Post_downloaded ''1'', Get_notes, Delete_note ''1'' Fulfilled, Get_notes]"

section \<open>Lemmas\<close>

subsection \<open>Array methods\<close>

lemma findIndex_None: "findIndex P xs = None \<longleftrightarrow> (\<forall>x \<in> set xs. \<not> P x)"
  by (induction xs) auto

lemma findIndex_Some:
  "findIndex P xs = Some i \<Longrightarrow> i < length xs \<and> P (xs ! i) \<and> (\<forall>j<i. \<not> P (xs ! j))"
proof (induction xs arbitrary: i)
  case Nil
  then show ?case by simp
next
  case (Cons x xs)
  show ?case
  proof (cases "P x")
    case True
    with Cons.prems show ?thesis by simp
  next
    case False
    with Cons.prems obtain k where k: "findIndex P xs = Some k" "i = Suc k"
      by auto
    from Cons.IH [OF k(1)] False k(2) show ?thesis
      by (auto simp: nth_Cons split: nat.splits)
  qed
qed

lemma findIndex_present:
  "\<exists>x \<in> set xs. P x \<Longrightarrow> \<exists>i. findIndex P xs = Some i"
  by (cases "findIndex P xs") (auto simp: findIndex_None)

lemma mset_sort_insert: "mset (sort_insert cmp x ys) = add_mset x (mset ys)"
  by (induction ys) simp_all

lemma mset_js_sort: "mset (js_sort cmp xs) = mset xs"
  by (induction xs) (simp_all add: mset_sort_insert)

lemma set_sort_insert: "set (sort_insert cmp x ys) = insert x (set ys)"
  using mset_sort_insert [of cmp x ys] by (metis set_mset_add_mset_insert set_mset_mset)

lemma length_js_sort: "length (js_sort cmp xs) = length xs"
  using mset_js_sort [of cmp xs] by (metis size_mset)

lemma sorted_sort_insert:
  assumes "\<And>a b. cmp a b \<le> 0 \<longleftrightarrow> key b \<le> (key a :: int)"
    and "sorted_wrt (\<lambda>a b. key b \<le> key a) ys"
  shows "sorted_wrt (\<lambda>a b. key b \<le> key a) (sort_insert cmp x ys)"
  using assms(2)
proof (induction ys)
  case Nil
  then show ?case by simp
next
  case (Cons y ys)
  show ?case
  proof (cases "cmp x y \<le> 0")
    case True
    then have "key y \<le> key x"
      using assms(1) by simp
    moreover have "\<forall>z \<in> set ys. key z \<le> key y"
      using Cons.prems by simp
    ultimately have "\<forall>z \<in> set (y # ys). key z \<le> key x"
      by auto
    then show ?thesis
      using True Cons.prems by simp
  next
    case False
    then have "key x \<le> key y"
      using assms(1) [of x y] by simp
    moreover have "sorted_wrt (\<lambda>a b. key b \<le> key a) (sort_insert cmp x ys)"
      using Cons by simp
    ultimately show ?thesis
      using False Cons.prems by (simp add: set_sort_insert)
  qed
qed

lemma sorted_js_sort:
  assumes "\<And>a b. cmp a b \<le> 0 \<longleftrightarrow> key b \<le> (key a :: int)"
  shows "sorted_wrt (\<lambda>a b. key b \<le> key a) (js_sort cmp xs)"
  by (induction xs) (simp_all add: sorted_sort_insert [OF assms])



subsection \<open>Reading the store\<close>

lemma registry_map: "registry s = map (deref s) (read_array s (voiceNotes s))"
  by (simp add: registry_def stringify_def)

lemma registry_cloud_log: "registry (s\<lparr>cloud_log := l\<rparr>) = registry s"
  unfolding registry_map by (simp add: read_array_def deref_def [abs_def])

lemma read_array_cloud_log: "read_array (s\<lparr>cloud_log := l\<rparr>) = read_array s"
  unfolding read_array_def fun_eq_iff by simp

lemma read_array_objs: "read_array (s\<lparr>objs := h\<rparr>) = read_array s"
  unfolding read_array_def fun_eq_iff by simp

lemma registry_sorted_in_place:
  "registry (s\<lparr>arrays := (arrays s)(voiceNotes s \<mapsto> xs)\<rparr>) = map (deref s) xs"
  unfolding registry_map by (simp add: read_array_def deref_def [abs_def])

lemma registry_splice:
  "registry (s\<lparr>cloud_log := l, arrays := (arrays s)(voiceNotes s \<mapsto> splice1 k (read_array s (voiceNotes s)))\<rparr>)
     = splice1 k (registry s)"
  unfolding registry_map splice1_def
  apply (simp add: read_array_def)
  apply (simp add: deref_def [abs_def] take_map drop_map)
  done

lemma read_array_push_new:
  "read_array (push_new n s) (voiceNotes (push_new n s)) =
     read_array s (voiceNotes s) @ [next_addr s]"
  by (simp add: push_new_def read_array_def)

lemma deref_push_new:
  "deref (push_new n s) a = (if a = next_addr s then n else deref s a)"
  by (simp add: push_new_def deref_def)


lemma last_registry_push_new: "last (registry (push_new n s)) = n"
  unfolding registry_map read_array_push_new by (simp add: deref_push_new)

lemma find_id_None:
  "List.find (id_is s k) (read_array s (voiceNotes s)) = None \<longleftrightarrow>
   (\<forall>n \<in> set (registry s). Some (int (id_note n)) \<noteq> k)"
  by (auto simp: find_None_iff registry_map id_is_def)

lemma findIndex_id_None:
  "findIndex (id_is s k) (read_array s (voiceNotes s)) = None \<longleftrightarrow>
   (\<forall>n \<in> set (registry s). Some (int (id_note n)) \<noteq> k)"
  by (auto simp: findIndex_None registry_map id_is_def)

lemma find_present:
  assumes "\<exists>n \<in> set (registry s). Some (int (id_note n)) = k"
  shows "\<exists>a \<in> set (read_array s (voiceNotes s)).
           id_is s k a \<and> List.find (id_is s k) (read_array s (voiceNotes s)) = Some a"
proof (cases "List.find (id_is s k) (read_array s (voiceNotes s))")
  case None
  then show ?thesis
    using assms unfolding find_id_None by blast
next
  case (Some a)
  then show ?thesis
    unfolding find_Some_iff by (metis nth_mem)
qed

subsection \<open>The handlers, case by case\<close>

lemma upload_no_file:
  "req_file req = None \<Longrightarrow>
   upload_voice req now_id outcome now s =
     (status_json 400 (Error_body ''No audio file provided'' None), s)"
  by (simp add: upload_voice_def)

lemma upload_threw:
  "req_file req = Some f \<Longrightarrow>
   upload_voice req now_id (Upload_threw m) now s =
     (status_json 500 (Error_body ''Upload failed'' (Some m)), s)"
  by (simp add: upload_voice_def)

lemma upload_error:
  "req_file req = Some f \<Longrightarrow>
   upload_voice req now_id (Upload_error e) now s =
     (status_json 500 (Error_body ''Upload failed'' None),
      s\<lparr>cloud_log := cloud_log s @ [Upload_stream now_id (buffer f)]\<rparr>)"
  by (simp add: upload_voice_def)

lemma upload_result:
  "req_file req = Some f \<Longrightarrow>
   upload_voice req now_id (Upload_result url pid) now s =
     (json (Upload_body ''Voice note uploaded successfully'' (noteIdCounter s) url),
      push_new
        \<lparr>id_note = noteIdCounter s, cloudinaryUrl = url, publicId = pid,
         effect = or_unknown (body_effect req), timestamp = now,
         userAgent = substring_or_unknown (body_userAgent req),
         fileSize = length (buffer f), duration = None, downloaded = False,
         downloadCount = 0\<rparr>
        (s\<lparr>cloud_log := cloud_log s @ [Upload_stream now_id (buffer f)],
           noteIdCounter := noteIdCounter s + 1\<rparr>))"
  by (simp add: upload_voice_def Let_def)

lemma stored_record:
  assumes "req_file req = Some f"
  shows "last (registry (snd (upload_voice req now_id (Upload_result url pid) now s))) =
     \<lparr>id_note = noteIdCounter s, cloudinaryUrl = url, publicId = pid,
         effect = or_unknown (body_effect req), timestamp = now,
         userAgent = substring_or_unknown (body_userAgent req),
         fileSize = length (buffer f), duration = None, downloaded = False,
         downloadCount = 0\<rparr>"
  unfolding upload_result [OF assms] snd_conv by (rule last_registry_push_new)

lemma newest_first_key:
  "newest_first s a b \<le> 0 \<longleftrightarrow> timestamp (deref s b) \<le> timestamp (deref s a)"
  by (simp add: newest_first_def)

lemma listNotes_eq:
  "listNotes s =
     (json (Notes_body (length (read_array s (voiceNotes s)))
              (map (deref s) (js_sort (newest_first s) (read_array s (voiceNotes s))))),
      s\<lparr>arrays := (arrays s)(voiceNotes s \<mapsto>
           js_sort (newest_first s) (read_array s (voiceNotes s)))\<rparr>)"
  unfolding listNotes_def sort_voiceNotes_def Let_def prod.case stringify_def
  by (simp add: read_array_def deref_def [abs_def] length_js_sort)

lemma listNotes_response:
  "fst (listNotes s) =
     json (Notes_body (length (registry (snd (listNotes s)))) (registry (snd (listNotes s))))"
  unfolding listNotes_eq fst_conv snd_conv registry_sorted_in_place
  by (simp add: length_js_sort)

lemma markDownloaded_absent:
  assumes "List.find (id_is s (parseInt id_param)) (read_array s (voiceNotes s)) = None"
  shows "markDownloaded id_param s =
           (status_json 404 (Error_body ''Voice note not found'' None), s)"
  using assms by (simp add: markDownloaded_def)

lemma markDownloaded_found:
  assumes "List.find (id_is s (parseInt id_param)) (read_array s (voiceNotes s)) = Some a"
  shows "markDownloaded id_param s =
           (json (Message_body ''Marked as downloaded''),
            s\<lparr>objs := (objs s)(a \<mapsto>
                 (deref s a)\<lparr>downloaded := True,
                              downloadCount := downloadCount (deref s a) + 1\<rparr>)\<rparr>)"
  unfolding markDownloaded_def Let_def assms or_zero_def by simp

lemma id_is_after_mark:
  "id_is (s\<lparr>objs := (objs s)(a \<mapsto> (deref s a)\<lparr>downloaded := d, downloadCount := c\<rparr>)\<rparr>) k
     = id_is s k"
  unfolding id_is_def deref_def fun_eq_iff by simp

lemma mark_twice:
  "(s\<lparr>objs := (objs s)(a \<mapsto> (deref s a)\<lparr>downloaded := True, downloadCount := c\<rparr>)\<rparr>)
     \<lparr>objs := (objs (s\<lparr>objs := (objs s)(a \<mapsto> (deref s a)\<lparr>downloaded := True, downloadCount := c\<rparr>)\<rparr>))
        (a \<mapsto> (deref (s\<lparr>objs := (objs s)(a \<mapsto> (deref s a)\<lparr>downloaded := True, downloadCount := c\<rparr>)\<rparr>) a)
                   \<lparr>downloaded := True, downloadCount := c'\<rparr>)\<rparr>
   = s\<lparr>objs := (objs s)(a \<mapsto> (deref s a)\<lparr>downloaded := True, downloadCount := c'\<rparr>)\<rparr>"
  unfolding deref_def by simp


lemma delete_until_await_absent:
  assumes "findIndex (id_is s (parseInt id_param)) (read_array s (voiceNotes s)) = None"
  shows "delete_until_await id_param s =
           Inl (status_json 404 (Error_body ''Voice note not found'' None))"
  unfolding delete_until_await_def Let_def assms by simp

lemma delete_until_await_found:
  assumes "findIndex (id_is s (parseInt id_param)) (read_array s (voiceNotes s)) = Some k"
  shows "delete_until_await id_param s =
           Inr (k, s\<lparr>cloud_log := cloud_log s @ [Destroy (publicId (registry s ! k))]\<rparr>)"
proof -
  have k: "k < length (read_array s (voiceNotes s))"
    using findIndex_Some [OF assms] by simp
  then have r: "registry s ! k = deref s (read_array s (voiceNotes s) ! k)"
    by (simp add: registry_map)
  show ?thesis
    unfolding delete_until_await_def Let_def assms r by simp
qed

lemma deleteNote_absent:
  assumes "findIndex (id_is s (parseInt id_param)) (read_array s (voiceNotes s)) = None"
  shows "deleteNote id_param outcome s =
           (status_json 404 (Error_body ''Voice note not found'' None), s)"
  unfolding deleteNote_def delete_until_await_absent [OF assms] by simp

lemma deleteNote_found_rejected:
  assumes "findIndex (id_is s (parseInt id_param)) (read_array s (voiceNotes s)) = Some k"
  shows "deleteNote id_param (Rejected e) s =
           (status_json 500 (Error_body ''Failed to delete voice note'' None),
            s\<lparr>cloud_log := cloud_log s @ [Destroy (publicId (registry s ! k))]\<rparr>)"
  unfolding deleteNote_def delete_until_await_found [OF assms] delete_after_await_def
  by simp

lemma deleteNote_found_fulfilled:
  assumes "findIndex (id_is s (parseInt id_param)) (read_array s (voiceNotes s)) = Some k"
  shows "deleteNote id_param Fulfilled s =
           (json (Message_body ''Voice note deleted successfully''),
            s\<lparr>cloud_log := cloud_log s @ [Destroy (publicId (registry s ! k))],
              arrays := (arrays s)(voiceNotes s \<mapsto> splice1 k (read_array s (voiceNotes s)))\<rparr>)"
  unfolding deleteNote_def delete_until_await_found [OF assms] delete_after_await_def
  by (simp add: read_array_cloud_log)

lemma delete_after_await_rejected:
  "delete_after_await k (Rejected e) s =
     (status_json 500 (Error_body ''Failed to delete voice note'' None), s)"
  by (simp add: delete_after_await_def)

subsection \<open>Sequences of requests\<close>

lemma fst_sent: "fst (sent p) = [fst p]"
  by (cases p) simp

lemma snd_sent: "snd (sent p) = snd p"
  by (cases p) simp

lemma run_Cons_eq:
  "handle q s = ([r], s1) \<Longrightarrow> run qs s1 = (rs, s2) \<Longrightarrow> run (q # qs) s = (r # rs, s2)"
  by simp

lemma run_Cons_silent:
  "handle q s = ([], s1) \<Longrightarrow> run qs s1 = (rs, s2) \<Longrightarrow> run (q # qs) s = (rs, s2)"
  by simp

lemma run_Cons:
  "run (q # qs) s = (fst (handle q s) @ fst (run qs (snd (handle q s))),
                     snd (run qs (snd (handle q s))))"
  by (simp add: split_beta)

lemma handle_Delete_begin_absent:
  assumes "findIndex (id_is s (parseInt id_param)) (read_array s (voiceNotes s)) = None"
  shows "handle (Delete_begin id_param) s =
           ([status_json 404 (Error_body ''Voice note not found'' None)], s)"
  unfolding handle.simps delete_until_await_absent [OF assms] by simp

lemma handle_Delete_begin_found:
  assumes "findIndex (id_is s (parseInt id_param)) (read_array s (voiceNotes s)) = Some k"
  shows "handle (Delete_begin id_param) s =
           ([], s\<lparr>cloud_log := cloud_log s @ [Destroy (publicId (registry s ! k))]\<rparr>)"
  unfolding handle.simps delete_until_await_found [OF assms] by simp

lemma handle_Delete_begin_cases:
  "handle (Delete_begin id_param) s =
     ([status_json 404 (Error_body ''Voice note not found'' None)], s) \<or>
   (\<exists>l. handle (Delete_begin id_param) s = ([], s\<lparr>cloud_log := l\<rparr>))"
proof (cases "findIndex (id_is s (parseInt id_param)) (read_array s (voiceNotes s))")
  case None
  then show ?thesis
    by (simp only: handle_Delete_begin_absent simp_thms)
next
  case (Some k)
  show ?thesis
    unfolding handle_Delete_begin_found [OF Some] by blast
qed

lemma handle_Delete_resume:
  "handle (Delete_resume k (Rejected e)) s =
     ([status_json 500 (Error_body ''Failed to delete voice note'' None)], s)"
  "handle (Delete_resume k Fulfilled) s =
     ([json (Message_body ''Voice note deleted successfully'')],
      s\<lparr>arrays := (arrays s)(voiceNotes s \<mapsto> splice1 k (read_array s (voiceNotes s)))\<rparr>)"
  by (simp_all add: delete_after_await_def)


lemma run_marks:
  assumes "List.find (id_is s (parseInt id_param)) (read_array s (voiceNotes s)) = Some a"
  shows "run (replicate (Suc N) (Post_downloaded id_param)) s =
           (replicate (Suc N) (json (Message_body ''Marked as downloaded'')),
            s\<lparr>objs := (objs s)(a \<mapsto>
                 (deref s a)\<lparr>downloaded := True,
                              downloadCount := downloadCount (deref s a) + Suc N\<rparr>)\<rparr>)"
  using assms
proof (induction N arbitrary: s)
  case 0
  have "handle (Post_downloaded id_param) s =
      ([json (Message_body ''Marked as downloaded'')],
       s\<lparr>objs := (objs s)(a \<mapsto>
                 (deref s a)\<lparr>downloaded := True,
                              downloadCount := downloadCount (deref s a) + Suc 0\<rparr>)\<rparr>)"
    unfolding handle.simps markDownloaded_found [OF 0] One_nat_def sent.simps by (rule refl)
  then show ?case
    unfolding replicate.simps by (rule run_Cons_eq) (rule run.simps)
next
  case (Suc N)
  let ?s1 = "s\<lparr>objs := (objs s)(a \<mapsto>
                 (deref s a)\<lparr>downloaded := True,
                              downloadCount := downloadCount (deref s a) + 1\<rparr>)\<rparr>"
  have step: "handle (Post_downloaded id_param) s =
      ([json (Message_body ''Marked as downloaded'')], ?s1)"
    unfolding handle.simps markDownloaded_found [OF Suc.prems] sent.simps by (rule refl)
  have found: "List.find (id_is ?s1 (parseInt id_param)) (read_array ?s1 (voiceNotes ?s1)) = Some a"
    unfolding id_is_after_mark read_array_objs using Suc.prems by simp
  have c: "downloadCount (deref ?s1 a) + Suc N = downloadCount (deref s a) + Suc (Suc N)"
    unfolding deref_def by simp
  have rest: "run (replicate (Suc N) (Post_downloaded id_param)) ?s1 =
           (replicate (Suc N) (json (Message_body ''Marked as downloaded'')),
            s\<lparr>objs := (objs s)(a \<mapsto>
                 (deref s a)\<lparr>downloaded := True,
                              downloadCount := downloadCount (deref s a) + Suc (Suc N)\<rparr>)\<rparr>)"
    unfolding Suc.IH [OF found] c mark_twice by (rule refl)
  show ?case
    unfolding replicate.simps(2) [of "Suc N"] by (rule run_Cons_eq [OF step rest])
qed

lemma voiceNotes_handle: "voiceNotes (snd (handle q s)) = voiceNotes s"
proof (cases q)
  case (Post_upload req now_id outcome now)
  show ?thesis
  proof (cases "req_file req")
    case None
    then show ?thesis
      unfolding Post_upload by (simp add: upload_no_file snd_sent)
  next
    case (Some f)
    then show ?thesis
      unfolding Post_upload
      by (cases outcome)
        (simp_all add: upload_error upload_result upload_threw push_new_def snd_sent)
  qed
next
  case Get_notes
  then show ?thesis
    by (simp add: listNotes_eq snd_sent)
next
  case (Post_downloaded id_param)
  then show ?thesis
    by (cases "List.find (id_is s (parseInt id_param)) (read_array s (voiceNotes s))")
      (simp_all add: markDownloaded_absent markDownloaded_found snd_sent)
next
  case (Delete_note id_param outcome)
  show ?thesis
  proof (cases "findIndex (id_is s (parseInt id_param)) (read_array s (voiceNotes s))")
    case None
    then show ?thesis
      unfolding Delete_note by (simp add: deleteNote_absent snd_sent)
  next
    case (Some k)
    then show ?thesis
      unfolding Delete_note
      by (cases outcome)
        (simp_all add: deleteNote_found_rejected deleteNote_found_fulfilled snd_sent)
  qed
next
  case (Delete_begin id_param)
  show ?thesis
    using handle_Delete_begin_cases [of id_param s] unfolding Delete_begin by auto
next
  case (Delete_resume k outcome)
  show ?thesis
    unfolding Delete_resume by (cases outcome) (simp_all add: delete_after_await_def)
qed

lemma voiceNotes_run: "voiceNotes (snd (run qs s)) = voiceNotes s"
proof (induction qs arbitrary: s)
  case Nil
  show ?case by simp
next
  case (Cons q qs)
  show ?case
    unfolding run_Cons snd_conv Cons.IH by (rule voiceNotes_handle)
qed

subsection \<open>The identifiers given out, and what every reachable state satisfies\<close>




















subsection \<open>\<^verbatim>\<open>parseInt\<close> on some strings\<close>

lemma parseInt_digit_1: "parseInt ''1'' = Some 1"
  by (simp add: parseInt_def StrWhiteSpaceChar_def is_digit_def digit_value_def)

lemma parseInt_digit_2: "parseInt ''2'' = Some 2"
  by (simp add: parseInt_def StrWhiteSpaceChar_def is_digit_def digit_value_def)

lemma parseInt_alpha:
  assumes "is_alpha c"
  shows "parseInt (c # cs) = None"
proof -
  have 1: "\<not> StrWhiteSpaceChar c"
    using assms by (auto simp: is_alpha_def StrWhiteSpaceChar_def Let_def)
  have 2: "c \<noteq> CHR ''-''" "c \<noteq> CHR ''+''" "c \<noteq> CHR ''0''"
    using assms by (auto simp: is_alpha_def Let_def)
  have 3: "\<not> is_digit 10 c"
    using assms by (auto simp: is_alpha_def is_digit_def digit_value_def Let_def)
  show ?thesis
    using 1 2 3 by (simp add: parseInt_def Let_def)
qed

subsection \<open>The sample states, evaluated\<close>

lemmas upload_defs = upload_voice_def push_new_def read_array_def deref_def json_def
  status_json_def or_unknown_def substring_or_unknown_def truthy_def

lemma one_note_eq:
  "one_note =
     \<lparr>arrays = [0 \<mapsto> [0]], objs = [0 \<mapsto> note_a], next_addr = 1, voiceNotes = 0,
      noteIdCounter = 2, cloud_log = [Upload_stream 1000 ''RIFF'']\<rparr>"
  by (simp add: one_note_def upload_defs init_server_def echo_request_def note_a_def
      eval_nat_numeral)

lemma registry_one_note: "registry one_note = [note_a]"
  by (simp add: one_note_eq registry_map read_array_def deref_def)

lemma sort_one_note: "sort_voiceNotes one_note = (0, one_note)"
  unfolding sort_voiceNotes_def one_note_eq by (simp add: read_array_def)

lemma stringify_one_note: "stringify one_note 0 = [note_a]"
  unfolding stringify_def one_note_eq by (simp add: read_array_def deref_def)

lemma upload_b_one_note:
  "stringify (snd (handle (upload_at 2000 ''https://cdn/b'' ''voices/b'') one_note)) 0 =
     [note_a, note_b]"
  unfolding stringify_def one_note_eq
  by (simp add: upload_at_def upload_defs echo_request_def note_b_def eval_nat_numeral)

lemma mark_one_note:
  "stringify (snd (markDownloaded ''1'' one_note)) 0 =
     [note_a\<lparr>downloaded := True, downloadCount := 1\<rparr>]"
proof -
  have "List.find (id_is one_note (parseInt ''1'')) (read_array one_note (voiceNotes one_note))
          = Some 0"
    unfolding parseInt_digit_1 one_note_eq
    by (simp add: read_array_def id_is_def deref_def note_a_def)
  from markDownloaded_found [OF this] show ?thesis
    unfolding stringify_def one_note_eq
    by (simp add: read_array_def deref_def note_a_def)
qed

lemma delete_one_note:
  "stringify (snd (deleteNote ''1'' Fulfilled one_note)) 0 = []"
proof -
  have "findIndex (id_is one_note (parseInt ''1'')) (read_array one_note (voiceNotes one_note))
          = Some 0"
    unfolding parseInt_digit_1 one_note_eq
    by (simp add: read_array_def id_is_def deref_def note_a_def)
  from deleteNote_found_fulfilled [OF this] show ?thesis
    unfolding stringify_def one_note_eq
    by (simp add: read_array_def splice1_def)
qed

lemma three_notes_eq:
  "three_notes =
     \<lparr>arrays = [0 \<mapsto> [0, 1, 2]], objs = [0 \<mapsto> note_a, 1 \<mapsto> note_b, 2 \<mapsto> note_c],
      next_addr = 3, voiceNotes = 0, noteIdCounter = 4,
      cloud_log = [Upload_stream 1000 ''RIFF'', Upload_stream 2000 ''RIFF'',
                   Upload_stream 3000 ''RIFF'']\<rparr>"
proof -
  have u: "handle (upload_at t url pid) s =
    ([json (Upload_body ''Voice note uploaded successfully'' (noteIdCounter s) url)],
     s\<lparr>cloud_log := cloud_log s @ [Upload_stream t ''RIFF''],
       noteIdCounter := Suc (noteIdCounter s),
       objs := (objs s)(next_addr s \<mapsto>
          \<lparr>id_note = noteIdCounter s, cloudinaryUrl = url, publicId = pid,
           effect = ''echo'', timestamp = t + 1, userAgent = ''unknown'', fileSize = 4,
           duration = None, downloaded = False, downloadCount = 0\<rparr>),
       next_addr := Suc (next_addr s),
       arrays := (arrays s)(voiceNotes s \<mapsto> read_array s (voiceNotes s) @ [next_addr s])\<rparr>)"
    for t url pid s
    by (simp add: upload_at_def upload_defs echo_request_def eval_nat_numeral)
  show ?thesis
    unfolding three_notes_def three_uploads_def run.simps u Let_def prod.case snd_conv
    by (simp add: init_server_def read_array_def note_a_def note_b_def note_c_def
        eval_nat_numeral)
qed

lemma registry_three_notes: "registry three_notes = [note_a, note_b, note_c]"
  unfolding registry_map three_notes_eq by (simp add: read_array_def deref_def)

lemma list_three_notes:
  "fst (listNotes three_notes) = json (Notes_body 3 [note_c, note_b, note_a])"
  unfolding listNotes_eq fst_conv three_notes_eq
  by (simp add: read_array_def deref_def newest_first_def note_a_def note_b_def note_c_def
      numeral_3_eq_3)


section \<open>The claims\<close>

subsection \<open>Deleting a record\<close>

text \<open>
  Claim C1. The claim is that a deletion removes the record of the identifier it was
  asked for, once the remote store has destroyed the object of that record. The handler
  looks the index of the record up before it waits for the remote store and splices
  at that index after, in whatever state the array is by then. With the three records
  of the sample state, stored oldest first, and the deletion of record 1:
  \<^item> the first half finds index 0 and has \<^verbatim>\<open>voices/a\<close> destroyed;
  \<^item> a listing served during the wait sorts the array, newest first, so that record 3
    is at index 0; the second half answers 200 and removes record 3, whose object
    nobody destroyed, and record 1, whose object is gone, stays;
  \<^item> served alone, the deletion leaves records 2 and 3, as the claim has it;
  \<^item> the same three steps as a run of the server, with the responses sent;
  \<^item> two deletions, of records 1 and 2, that both wait before either goes on: the
    first splices at 0, the second at 1 of what is left, which is record 3. Record 2
    stays and record 3 is gone.
\<close>

theorem delete_interleaved_with_list:
  "delete_until_await ''1'' three_notes =
     Inr (0, three_notes\<lparr>cloud_log := cloud_log three_notes @ [Destroy ''voices/a'']\<rparr>) \<and>
   fst (delete_after_await 0 Fulfilled
     (snd (listNotes
       (three_notes\<lparr>cloud_log := cloud_log three_notes @ [Destroy ''voices/a'']\<rparr>)))) =
     json (Message_body ''Voice note deleted successfully'') \<and>
   registry (snd (delete_after_await 0 Fulfilled
     (snd (listNotes
       (three_notes\<lparr>cloud_log := cloud_log three_notes @ [Destroy ''voices/a'']\<rparr>))))) =
     [note_b, note_a] \<and>
   registry (snd (deleteNote ''1'' Fulfilled three_notes)) = [note_b, note_c] \<and>
   fst (run [Delete_begin ''1'', Get_notes, Delete_resume 0 Fulfilled] three_notes) =
     [json (Notes_body 3 [note_c, note_b, note_a]),
      json (Message_body ''Voice note deleted successfully'')] \<and>
   registry (snd (run [Delete_begin ''1'', Get_notes, Delete_resume 0 Fulfilled] three_notes)) =
     [note_b, note_a] \<and>
   cloud_log (snd (run [Delete_begin ''1'', Get_notes, Delete_resume 0 Fulfilled] three_notes)) =
     cloud_log three_notes @ [Destroy ''voices/a''] \<and>
   registry (snd (run [Delete_begin ''1'', Delete_begin ''2'',
                       Delete_resume 0 Fulfilled, Delete_resume 1 Fulfilled] three_notes)) =
     [note_b] \<and>
   cloud_log (snd (run [Delete_begin ''1'', Delete_begin ''2'',
                        Delete_resume 0 Fulfilled, Delete_resume 1 Fulfilled] three_notes)) =
     cloud_log three_notes @ [Destroy ''voices/a'', Destroy ''voices/b'']"
proof -
  let ?w = "three_notes\<lparr>cloud_log := cloud_log three_notes @ [Destroy ''voices/a'']\<rparr>"
  let ?l = "?w\<lparr>arrays := [0 \<mapsto> [2, 1, 0]]\<rparr>"
  let ?r = "?w\<lparr>arrays := [0 \<mapsto> [1, 0]]\<rparr>"
  have f: "findIndex (id_is three_notes (parseInt ''1''))
             (read_array three_notes (voiceNotes three_notes)) = Some 0"
    unfolding parseInt_digit_1 three_notes_eq
    by (simp add: read_array_def id_is_def deref_def note_a_def)
  have p: "publicId (registry three_notes ! 0) = ''voices/a''"
    unfolding registry_three_notes by (simp add: note_a_def)
  have 1: "delete_until_await ''1'' three_notes = Inr (0, ?w)"
    using delete_until_await_found [OF f] unfolding p .
  have b: "handle (Delete_begin ''1'') three_notes = ([], ?w)"
    using handle_Delete_begin_found [OF f] unfolding p .
  have g: "listNotes ?w = (json (Notes_body 3 [note_c, note_b, note_a]), ?l)"
    unfolding listNotes_eq three_notes_eq
    by (simp add: read_array_def deref_def newest_first_def note_a_def note_b_def note_c_def
        numeral_3_eq_3)
  have h: "delete_after_await 0 Fulfilled ?l =
             (json (Message_body ''Voice note deleted successfully''), ?r)"
    unfolding delete_after_await_def three_notes_eq
    by (simp add: read_array_def splice1_def)
  have rr: "registry ?r = [note_b, note_a]"
    unfolding registry_map three_notes_eq by (simp add: read_array_def deref_def)
  have lr: "cloud_log ?r = cloud_log three_notes @ [Destroy ''voices/a'']"
    by simp
  have 2: "fst (delete_after_await 0 Fulfilled (snd (listNotes ?w))) =
             json (Message_body ''Voice note deleted successfully'')"
    unfolding g snd_conv h by simp
  have 3: "registry (snd (delete_after_await 0 Fulfilled (snd (listNotes ?w)))) =
             [note_b, note_a]"
    unfolding g snd_conv h by (rule rr)
  have 4: "registry (snd (deleteNote ''1'' Fulfilled three_notes)) = [note_b, note_c]"
    unfolding deleteNote_found_fulfilled [OF f] snd_conv registry_splice registry_three_notes
    by (simp add: splice1_def)
  have hg: "handle Get_notes ?w = ([json (Notes_body 3 [note_c, note_b, note_a])], ?l)"
    unfolding handle.simps g sent.simps by (rule refl)
  have hh: "handle (Delete_resume 0 Fulfilled) ?l =
              ([json (Message_body ''Voice note deleted successfully'')], ?r)"
    unfolding handle.simps h sent.simps by (rule refl)
  have run1: "run [Delete_begin ''1'', Get_notes, Delete_resume 0 Fulfilled] three_notes =
      ([json (Notes_body 3 [note_c, note_b, note_a]),
        json (Message_body ''Voice note deleted successfully'')], ?r)"
    by (rule run_Cons_silent [OF b run_Cons_eq [OF hg run_Cons_eq [OF hh run.simps(1)]]])
  have 5: "fst (run [Delete_begin ''1'', Get_notes, Delete_resume 0 Fulfilled] three_notes) =
     [json (Notes_body 3 [note_c, note_b, note_a]),
      json (Message_body ''Voice note deleted successfully'')]"
    unfolding run1 by simp
  have 6: "registry (snd (run [Delete_begin ''1'', Get_notes, Delete_resume 0 Fulfilled]
             three_notes)) = [note_b, note_a]"
    unfolding run1 snd_conv by (rule rr)
  have 7: "cloud_log (snd (run [Delete_begin ''1'', Get_notes, Delete_resume 0 Fulfilled]
             three_notes)) = cloud_log three_notes @ [Destroy ''voices/a'']"
    unfolding run1 snd_conv by (rule lr)
  let ?w2 = "?w\<lparr>cloud_log := cloud_log ?w @ [Destroy ''voices/b'']\<rparr>"
  let ?x = "?w2\<lparr>arrays := [0 \<mapsto> [1, 2]]\<rparr>"
  let ?y = "?w2\<lparr>arrays := [0 \<mapsto> [1]]\<rparr>"
  have f2: "findIndex (id_is ?w (parseInt ''2'')) (read_array ?w (voiceNotes ?w)) = Some 1"
    unfolding parseInt_digit_2 three_notes_eq
    by (simp add: read_array_def id_is_def deref_def note_a_def note_b_def)
  have p2: "publicId (registry ?w ! 1) = ''voices/b''"
    unfolding registry_cloud_log registry_three_notes by (simp add: note_b_def)
  have b2: "handle (Delete_begin ''2'') ?w = ([], ?w2)"
    using handle_Delete_begin_found [OF f2] unfolding p2 .
  have r1: "handle (Delete_resume 0 Fulfilled) ?w2 =
              ([json (Message_body ''Voice note deleted successfully'')], ?x)"
    unfolding handle_Delete_resume three_notes_eq
    by (simp add: read_array_def splice1_def)
  have r2: "handle (Delete_resume 1 Fulfilled) ?x =
              ([json (Message_body ''Voice note deleted successfully'')], ?y)"
    unfolding handle_Delete_resume three_notes_eq
    by (simp add: read_array_def splice1_def)
  have run2: "run [Delete_begin ''1'', Delete_begin ''2'',
                   Delete_resume 0 Fulfilled, Delete_resume 1 Fulfilled] three_notes =
      ([json (Message_body ''Voice note deleted successfully''),
        json (Message_body ''Voice note deleted successfully'')], ?y)"
    by (rule run_Cons_silent [OF b run_Cons_silent [OF b2 run_Cons_eq [OF r1
          run_Cons_eq [OF r2 run.simps(1)]]]])
  have 8: "registry (snd (run [Delete_begin ''1'', Delete_begin ''2'',
                       Delete_resume 0 Fulfilled, Delete_resume 1 Fulfilled] three_notes)) =
     [note_b]"
  proof -
    have "registry ?y = [note_b]"
      unfolding registry_map three_notes_eq by (simp add: read_array_def deref_def)
    then show ?thesis
      unfolding run2 snd_conv .
  qed
  have 9: "cloud_log (snd (run [Delete_begin ''1'', Delete_begin ''2'',
                        Delete_resume 0 Fulfilled, Delete_resume 1 Fulfilled] three_notes)) =
     cloud_log three_notes @ [Destroy ''voices/a'', Destroy ''voices/b'']"
    unfolding run2 snd_conv by simp
  show ?thesis
    by (intro conjI 1 2 3 4 5 6 7 8 9)
qed

text \<open>
  What holds of the handler whatever is served while it waits, for an identifier that
  a record of the registry has, \<open>k\<close> being the position \<^verbatim>\<open>findIndex\<close> finds it at: up to
  its \<^verbatim>\<open>await\<close> the handler has had the public id of that record destroyed and has
  changed nothing else, and after a rejection it answers 500 with
  \<^verbatim>\<open>{error: "Failed to delete voice note"}\<close> and leaves the state it finds as it is. So
  nothing is removed before the remote store has answered, and nothing after it has
  refused. And what holds when nothing is served in between (\<^verbatim>\<open>deleteNote\<close>): after a
  rejection the state is the one before but for the call in the log, and after a
  fulfilment the registry is the old one without its element \<open>k\<close>, no record object
  being touched.
\<close>

theorem delete_served_alone:
  assumes "\<exists>n \<in> set (registry s). Some (int (id_note n)) = parseInt id_param"
  shows "\<exists>k<length (registry s).
           Some (int (id_note (registry s ! k))) = parseInt id_param \<and>
           deleteNote id_param (Rejected e) s =
             (status_json 500 (Error_body ''Failed to delete voice note'' None),
              s\<lparr>cloud_log := cloud_log s @ [Destroy (publicId (registry s ! k))]\<rparr>) \<and>
           fst (deleteNote id_param Fulfilled s) =
             json (Message_body ''Voice note deleted successfully'') \<and>
           registry (snd (deleteNote id_param Fulfilled s)) = splice1 k (registry s) \<and>
           objs (snd (deleteNote id_param Fulfilled s)) = objs s \<and>
           noteIdCounter (snd (deleteNote id_param Fulfilled s)) = noteIdCounter s \<and>
           cloud_log (snd (deleteNote id_param Fulfilled s)) =
             cloud_log s @ [Destroy (publicId (registry s ! k))] \<and>
           delete_until_await id_param s =
             Inr (k, s\<lparr>cloud_log := cloud_log s @ [Destroy (publicId (registry s ! k))]\<rparr>) \<and>
           delete_after_await k (Rejected e) s' =
             (status_json 500 (Error_body ''Failed to delete voice note'' None), s')"
proof -
  from assms obtain a where a: "a \<in> set (read_array s (voiceNotes s))"
    "id_is s (parseInt id_param) a"
    unfolding registry_map id_is_def by auto
  then obtain k where k: "findIndex (id_is s (parseInt id_param)) (read_array s (voiceNotes s)) = Some k"
    using findIndex_present [of "read_array s (voiceNotes s)" "id_is s (parseInt id_param)"] by blast
  note f = findIndex_Some [OF k]
  have lt: "k < length (registry s)"
    using f by (simp add: registry_map)
  have hit: "Some (int (id_note (registry s ! k))) = parseInt id_param"
    using f unfolding registry_map id_is_def by simp
  note rej = deleteNote_found_rejected [OF k, of e]
  note ful = deleteNote_found_fulfilled [OF k]
  have 1: "fst (deleteNote id_param Fulfilled s) =
             json (Message_body ''Voice note deleted successfully'')"
    unfolding ful by simp
  have 2: "registry (snd (deleteNote id_param Fulfilled s)) = splice1 k (registry s)"
    unfolding ful snd_conv by (rule registry_splice)
  have 3: "objs (snd (deleteNote id_param Fulfilled s)) = objs s"
    unfolding ful by simp
  have 4: "noteIdCounter (snd (deleteNote id_param Fulfilled s)) = noteIdCounter s"
    unfolding ful by simp
  have 5: "cloud_log (snd (deleteNote id_param Fulfilled s)) =
             cloud_log s @ [Destroy (publicId (registry s ! k))]"
    unfolding ful by simp
  note 6 = delete_until_await_found [OF k]
  note 7 = delete_after_await_rejected [of k e s']
  show ?thesis
    by (rule exI [of _ k]) (intro conjI lt hit rej 1 2 3 4 5 6 7)
qed

text \<open>The registry holds the record 1, whose public id is \<^verbatim>\<open>voices/a\<close>.\<close>

theorem delete_served_alone_witness:
  "deleteNote ''1'' (Rejected ''timeout'') one_note =
     (status_json 500 (Error_body ''Failed to delete voice note'' None),
      one_note\<lparr>cloud_log := cloud_log one_note @ [Destroy ''voices/a'']\<rparr>) \<and>
   registry (snd (deleteNote ''1'' Fulfilled one_note)) = []"
proof -
  have h: "\<exists>n \<in> set (registry one_note). Some (int (id_note n)) = parseInt ''1''"
    by (simp add: registry_one_note parseInt_digit_1 note_a_def)
  from delete_served_alone
    [OF h, where e = "''timeout''" and s' = one_note]
  obtain k where k: "k < length (registry one_note)"
    and r: "deleteNote ''1'' (Rejected ''timeout'') one_note =
       (status_json 500 (Error_body ''Failed to delete voice note'' None),
        one_note\<lparr>cloud_log := cloud_log one_note @ [Destroy (publicId (registry one_note ! k))]\<rparr>)"
    and f: "registry (snd (deleteNote ''1'' Fulfilled one_note)) = splice1 k (registry one_note)"
    by (elim exE conjE) (rule that)
  from k have k0: "k = 0"
    by (simp add: registry_one_note)
  have p: "publicId (registry one_note ! 0) = ''voices/a''"
    by (simp add: registry_one_note note_a_def)
  have e: "splice1 0 (registry one_note) = []"
    by (simp add: registry_one_note splice1_def)
  show ?thesis
    using r f unfolding k0 p e by (rule conjI)
qed

subsection \<open>An upload the remote store refuses\<close>

text \<open>
  Claim C2. The remote store reports a failure by calling the callback of
  \<^verbatim>\<open>upload_stream\<close> with an error. The handler then answers 500 with the body
  \<^verbatim>\<open>{error: "Upload failed"}\<close> and nothing else: the error it was given is written to
  the console and is not part of the answer. The registry is untouched. The \<^verbatim>\<open>catch\<close>
  block of the same handler, which an exception thrown before the stream is at work
  reaches, answers 500 with \<^verbatim>\<open>{error: "Upload failed", details: error.message}\<close>.
\<close>

theorem failed_upload_hides_cause:
  "upload_voice echo_request 2000 (Upload_error ''Invalid Signature'') 2001 one_note =
     (status_json 500 (Error_body ''Upload failed'' None),
      one_note\<lparr>cloud_log := cloud_log one_note @ [Upload_stream 2000 ''RIFF'']\<rparr>) \<and>
   upload_voice echo_request 2000 (Upload_threw ''Must supply api_key'') 2001 one_note =
     (status_json 500 (Error_body ''Upload failed'' (Some ''Must supply api_key'')), one_note)"
  by (simp add: upload_voice_def echo_request_def)

text \<open>
  The part of the claim that is about the registry, for every request that carries a
  file and every error of the remote store: the state differs from the one before in
  the log of remote calls only, so the registry and the counter are as before and the
  list handler answers as it would have.
\<close>

theorem failed_upload_leaves_registry:
  assumes "req_file req = Some f"
  shows "upload_voice req now_id (Upload_error e) now s =
           (status_json 500 (Error_body ''Upload failed'' None),
            s\<lparr>cloud_log := cloud_log s @ [Upload_stream now_id (buffer f)]\<rparr>) \<and>
         registry (snd (upload_voice req now_id (Upload_error e) now s)) = registry s \<and>
         noteIdCounter (snd (upload_voice req now_id (Upload_error e) now s)) = noteIdCounter s \<and>
         fst (listNotes (snd (upload_voice req now_id (Upload_error e) now s))) =
           fst (listNotes s)"
proof -
  let ?s = "s\<lparr>cloud_log := cloud_log s @ [Upload_stream now_id (buffer f)]\<rparr>"
  have 1: "upload_voice req now_id (Upload_error e) now s =
           (status_json 500 (Error_body ''Upload failed'' None), ?s)"
    by (rule upload_error [OF assms])
  have 2: "registry ?s = registry s"
    by (rule registry_cloud_log)
  have 3: "noteIdCounter ?s = noteIdCounter s"
    by simp
  have d: "deref ?s = deref s"
    unfolding deref_def fun_eq_iff by simp
  have n: "newest_first ?s = newest_first s"
    unfolding newest_first_def d fun_eq_iff by simp
  have 4: "fst (listNotes ?s) = fst (listNotes s)"
    unfolding listNotes_eq fst_conv read_array_cloud_log d n by simp
  show ?thesis
    unfolding 1 snd_conv by (intro conjI refl 2 3 4)
qed

theorem failed_upload_leaves_registry_witness:
  "registry (snd (upload_voice echo_request 2000 (Upload_error ''Invalid Signature'') 2001
      one_note)) = [note_a] \<and>
   noteIdCounter (snd (upload_voice echo_request 2000 (Upload_error ''Invalid Signature'') 2001
      one_note)) = 2"
proof -
  have f: "req_file echo_request = Some \<lparr>buffer = ''RIFF''\<rparr>"
    by (simp add: echo_request_def)
  note t = failed_upload_leaves_registry [OF f, of 2000 "''Invalid Signature''" 2001 one_note]
  have c: "noteIdCounter one_note = 2"
    by (simp add: one_note_eq)
  from t have "registry (snd (upload_voice echo_request 2000 (Upload_error ''Invalid Signature'')
      2001 one_note)) = registry one_note"
    by (elim conjE)
  moreover from t have "noteIdCounter (snd (upload_voice echo_request 2000
      (Upload_error ''Invalid Signature'') 2001 one_note)) = noteIdCounter one_note"
    by (elim conjE)
  ultimately show ?thesis
    unfolding registry_one_note c by (rule conjI)
qed

subsection \<open>A request without a file, and a file without bytes\<close>

text \<open>
  Claim C3, as the code has it. The handler refuses a request that has no file
  (\<^verbatim>\<open>req.file\<close> is \<^verbatim>\<open>undefined\<close>): it answers 400 with
  \<^verbatim>\<open>{error: "No audio file provided"}\<close> and returns the state it was given, so no upload
  is attempted and no record is made. It answers 400 in no other case: when the request
  carries a file, of whatever length, the bytes are handed to the remote store (unless
  an exception is thrown first).
\<close>

theorem no_file_refused:
  "(req_file req = None \<longrightarrow>
      upload_voice req now_id outcome now s =
        (status_json 400 (Error_body ''No audio file provided'' None), s)) \<and>
   (status (fst (upload_voice req now_id outcome now s)) = 400 \<longleftrightarrow> req_file req = None) \<and>
   (req_file req = Some f \<and> (\<forall>m. outcome \<noteq> Upload_threw m) \<longrightarrow>
      cloud_log (snd (upload_voice req now_id outcome now s)) =
        cloud_log s @ [Upload_stream now_id (buffer f)])"
proof (cases "req_file req")
  case None
  then show ?thesis
    by (simp add: upload_no_file status_json_def)
next
  case (Some g)
  then show ?thesis
    by (cases outcome)
      (simp_all add: upload_error upload_result upload_threw status_json_def json_def
        push_new_def)
qed

theorem no_file_refused_witness:
  "upload_voice \<lparr>req_file = None, body_effect = Some ''echo'', body_userAgent = None\<rparr>
     1000 (Upload_result ''https://cdn/b'' ''voices/b'') 1001 one_note =
     (status_json 400 (Error_body ''No audio file provided'' None), one_note) \<and>
   cloud_log (snd (upload_voice echo_request 2000 (Upload_error ''Invalid Signature'') 2001
      one_note)) = cloud_log one_note @ [Upload_stream 2000 ''RIFF'']"
proof -
  have n: "req_file \<lparr>req_file = None, body_effect = Some ''echo'', body_userAgent = None\<rparr> = None"
    by simp
  have f: "req_file echo_request = Some \<lparr>buffer = ''RIFF''\<rparr> \<and>
      (\<forall>m. Upload_error ''Invalid Signature'' \<noteq> Upload_threw m)"
    by (simp add: echo_request_def)
  have 1: "upload_voice \<lparr>req_file = None, body_effect = Some ''echo'', body_userAgent = None\<rparr>
     1000 (Upload_result ''https://cdn/b'' ''voices/b'') 1001 one_note =
     (status_json 400 (Error_body ''No audio file provided'' None), one_note)"
    using no_file_refused
      [of "\<lparr>req_file = None, body_effect = Some ''echo'', body_userAgent = None\<rparr>"
        1000 "Upload_result ''https://cdn/b'' ''voices/b''" 1001 one_note] n
    by blast
  have 2: "cloud_log (snd (upload_voice echo_request 2000 (Upload_error ''Invalid Signature'') 2001
      one_note)) = cloud_log one_note @ [Upload_stream 2000 (buffer \<lparr>buffer = ''RIFF''\<rparr>)]"
    using no_file_refused
      [of echo_request 2000 "Upload_error ''Invalid Signature''" 2001 one_note
        "\<lparr>buffer = ''RIFF''\<rparr>"] f
    by blast
  show ?thesis
    using 1 2 by simp
qed

text \<open>
  The claim as it was stated fails for a file of zero bytes: the upload is attempted,
  and the answer is 200 with a record of size 0 when the remote store accepts it, 500
  when it does not; it is never 400.
\<close>

theorem empty_file_not_refused:
  "status (fst (upload_voice
      \<lparr>req_file = Some \<lparr>buffer = []\<rparr>, body_effect = None, body_userAgent = None\<rparr>
      1000 (Upload_result ''https://cdn/e'' ''voices/e'') 1001 init_server)) = 200 \<and>
   cloud_log (snd (upload_voice
      \<lparr>req_file = Some \<lparr>buffer = []\<rparr>, body_effect = None, body_userAgent = None\<rparr>
      1000 (Upload_result ''https://cdn/e'' ''voices/e'') 1001 init_server)) =
     [Upload_stream 1000 []] \<and>
   map fileSize (registry (snd (upload_voice
      \<lparr>req_file = Some \<lparr>buffer = []\<rparr>, body_effect = None, body_userAgent = None\<rparr>
      1000 (Upload_result ''https://cdn/e'' ''voices/e'') 1001 init_server))) = [0] \<and>
   status (fst (upload_voice
      \<lparr>req_file = Some \<lparr>buffer = []\<rparr>, body_effect = None, body_userAgent = None\<rparr>
      1000 (Upload_error ''Empty file'') 1001 init_server)) = 500 \<and>
   cloud_log (snd (upload_voice
      \<lparr>req_file = Some \<lparr>buffer = []\<rparr>, body_effect = None, body_userAgent = None\<rparr>
      1000 (Upload_error ''Empty file'') 1001 init_server)) = [Upload_stream 1000 []]"
  by (simp add: upload_defs init_server_def registry_map)

subsection \<open>The identifiers given out\<close>



subsection \<open>Marking a record as downloaded\<close>

text \<open>
  Claim C5. Let the identifier of the request be that of a record of the registry, and
  let \<open>a\<close> be the object \<^verbatim>\<open>find\<close> yields. \<open>N\<close> requests in a row, \<open>N\<close> at least 1, are
  all answered 200 with \<^verbatim>\<open>{message: "Marked as downloaded"}\<close>, and the state after them
  differs from the one before in the object \<open>a\<close> only, and there in two fields:
  \<^verbatim>\<open>downloaded\<close> is true and \<^verbatim>\<open>downloadCount\<close> has grown by \<open>N\<close>. A record enters the
  registry with the count 0, so that after the first \<open>N\<close> requests of its life the count
  is \<open>N\<close>.
\<close>

theorem mark_n_times:
  assumes "\<exists>n \<in> set (registry s). Some (int (id_note n)) = parseInt id_param"
    and "1 \<le> N"
  shows "\<exists>a \<in> set (read_array s (voiceNotes s)).
           Some (int (id_note (deref s a))) = parseInt id_param \<and>
           fst (run (replicate N (Post_downloaded id_param)) s) =
             replicate N (json (Message_body ''Marked as downloaded'')) \<and>
           snd (run (replicate N (Post_downloaded id_param)) s) =
             s\<lparr>objs := (objs s)(a \<mapsto>
                  (deref s a)\<lparr>downloaded := True,
                               downloadCount := downloadCount (deref s a) + N\<rparr>)\<rparr> \<and>
           downloaded (deref (snd (run (replicate N (Post_downloaded id_param)) s)) a) \<and>
           downloadCount (deref (snd (run (replicate N (Post_downloaded id_param)) s)) a) =
             downloadCount (deref s a) + N \<and>
           (downloadCount (deref s a) = 0 \<longrightarrow>
            downloadCount (deref (snd (run (replicate N (Post_downloaded id_param)) s)) a) = N)"
proof -
  from find_present [OF assms(1)] obtain a where a: "a \<in> set (read_array s (voiceNotes s))"
    "id_is s (parseInt id_param) a"
    "List.find (id_is s (parseInt id_param)) (read_array s (voiceNotes s)) = Some a"
    by blast
  from assms(2) obtain M where N: "N = Suc M"
    by (cases N) auto
  note r = run_marks [OF a(3), of M, folded N]
  have 1: "Some (int (id_note (deref s a))) = parseInt id_param"
    using a(2) unfolding id_is_def .
  have 2: "fst (run (replicate N (Post_downloaded id_param)) s) =
             replicate N (json (Message_body ''Marked as downloaded''))"
    unfolding r by simp
  have 3: "snd (run (replicate N (Post_downloaded id_param)) s) =
             s\<lparr>objs := (objs s)(a \<mapsto>
                  (deref s a)\<lparr>downloaded := True,
                               downloadCount := downloadCount (deref s a) + N\<rparr>)\<rparr>"
    unfolding r by simp
  have 4: "downloaded (deref (snd (run (replicate N (Post_downloaded id_param)) s)) a)"
    unfolding 3 deref_def by simp
  have 5: "downloadCount (deref (snd (run (replicate N (Post_downloaded id_param)) s)) a) =
             downloadCount (deref s a) + N"
    unfolding 3 deref_def by simp
  from 5 have 6: "downloadCount (deref s a) = 0 \<longrightarrow>
            downloadCount (deref (snd (run (replicate N (Post_downloaded id_param)) s)) a) = N"
    by simp
  show ?thesis
    by (rule bexI [OF _ a(1)]) (intro conjI 1 2 3 4 5 6)
qed

text \<open>Three requests for the record 1, which has not been marked before.\<close>

theorem mark_n_times_witness:
  "fst (run (replicate 3 (Post_downloaded ''1'')) one_note) =
     replicate 3 (json (Message_body ''Marked as downloaded'')) \<and>
   registry (snd (run (replicate 3 (Post_downloaded ''1'')) one_note)) =
     [note_a\<lparr>downloaded := True, downloadCount := 3\<rparr>]"
proof -
  have h: "\<exists>n \<in> set (registry one_note). Some (int (id_note n)) = parseInt ''1''"
    by (simp add: registry_one_note parseInt_digit_1 note_a_def)
  have n: "(1::nat) \<le> 3"
    by simp
  from mark_n_times [OF h n]
  obtain a where a: "a \<in> set (read_array one_note (voiceNotes one_note))"
    and r: "fst (run (replicate 3 (Post_downloaded ''1'')) one_note) =
             replicate 3 (json (Message_body ''Marked as downloaded''))"
    and s: "snd (run (replicate 3 (Post_downloaded ''1'')) one_note) =
             one_note\<lparr>objs := (objs one_note)(a \<mapsto>
                  (deref one_note a)\<lparr>downloaded := True,
                               downloadCount := downloadCount (deref one_note a) + 3\<rparr>)\<rparr>"
    by (elim bexE conjE) (rule that)
  from a have a0: "a = 0"
    by (simp add: one_note_eq read_array_def)
  have "registry (one_note\<lparr>objs := (objs one_note)(0 \<mapsto>
                  (deref one_note 0)\<lparr>downloaded := True,
                               downloadCount := downloadCount (deref one_note 0) + 3\<rparr>)\<rparr>) =
     [note_a\<lparr>downloaded := True, downloadCount := 3\<rparr>]"
    unfolding one_note_eq registry_map read_array_def deref_def by (simp add: note_a_def)
  then have "registry (snd (run (replicate 3 (Post_downloaded ''1'')) one_note)) =
     [note_a\<lparr>downloaded := True, downloadCount := 3\<rparr>]"
    unfolding s a0 .
  with r show ?thesis
    by (rule conjI)
qed

subsection \<open>Unknown identifiers\<close>

text \<open>
  Claim C6. When no record of the registry has the identifier of the request, the
  mark-downloaded handler and the delete handler both answer 404 with
  \<^verbatim>\<open>{error: "Voice note not found"}\<close> and return the state they were given: no record is
  changed, none is removed, and the log of calls to the remote store is as it was, so
  the delete handler has not called it.
\<close>

theorem absent_id_not_found:
  assumes "\<forall>n \<in> set (registry s). Some (int (id_note n)) \<noteq> parseInt id_param"
  shows "markDownloaded id_param s =
           (status_json 404 (Error_body ''Voice note not found'' None), s) \<and>
         deleteNote id_param outcome s =
           (status_json 404 (Error_body ''Voice note not found'' None), s)"
proof -
  have "List.find (id_is s (parseInt id_param)) (read_array s (voiceNotes s)) = None"
    using assms by (simp add: find_id_None)
  moreover
  have "findIndex (id_is s (parseInt id_param)) (read_array s (voiceNotes s)) = None"
    using assms by (simp add: findIndex_id_None)
  ultimately show ?thesis
    by (simp add: markDownloaded_absent deleteNote_absent)
qed

text \<open>The registry holds the record 1 only; the request is for 2.\<close>

theorem absent_id_not_found_witness:
  "markDownloaded ''2'' one_note =
     (status_json 404 (Error_body ''Voice note not found'' None), one_note) \<and>
   deleteNote ''2'' Fulfilled one_note =
     (status_json 404 (Error_body ''Voice note not found'' None), one_note)"
proof -
  have h: "\<forall>n \<in> set (registry one_note). Some (int (id_note n)) \<noteq> parseInt ''2''"
    by (simp add: registry_one_note parseInt_digit_2 note_a_def)
  show ?thesis
    by (rule absent_id_not_found [OF h])
qed

subsection \<open>Listing the records\<close>

text \<open>
  Claim C7. The list handler answers 200 with \<^verbatim>\<open>{success: true, count, notes}\<close> where
  \<^verbatim>\<open>notes\<close> holds every record of the registry, each as often as the registry does,
  the later timestamp first (records of equal timestamp in either order), and where
  \<^verbatim>\<open>count\<close> is the number of these notes. The array is sorted where it is, so the
  registry is in the order of the answer afterwards.
\<close>

theorem list_newest_first:
  "\<exists>ns. fst (listNotes s) = json (Notes_body (length ns) ns) \<and>
        mset ns = mset (registry s) \<and>
        sorted_wrt (\<lambda>x y. timestamp y \<le> timestamp x) ns \<and>
        registry (snd (listNotes s)) = ns"
proof -
  let ?xs = "js_sort (newest_first s) (read_array s (voiceNotes s))"
  let ?ns = "map (deref s) ?xs"
  have 1: "fst (listNotes s) = json (Notes_body (length ?ns) ?ns)"
    unfolding listNotes_eq by (simp add: length_js_sort)
  have 2: "mset ?ns = mset (registry s)"
    unfolding registry_map by (simp add: mset_js_sort)
  have "sorted_wrt (\<lambda>a b. timestamp (deref s b) \<le> timestamp (deref s a)) ?xs"
    by (rule sorted_js_sort) (rule newest_first_key)
  then have 3: "sorted_wrt (\<lambda>x y. timestamp y \<le> timestamp x) ?ns"
    by (simp add: sorted_wrt_map)
  have 4: "registry (snd (listNotes s)) = ?ns"
    unfolding listNotes_eq snd_conv by (rule registry_sorted_in_place)
  show ?thesis
    by (rule exI [of _ ?ns]) (intro conjI 1 2 3 4)
qed

text \<open>Records made at 1001 < 2001 < 3001 are listed as 3001, 2001, 1001.\<close>

theorem list_newest_first_witness:
  "fst (listNotes three_notes) = json (Notes_body 3 [note_c, note_b, note_a]) \<and>
   mset [note_c, note_b, note_a] = mset (registry three_notes)"
proof -
  from list_newest_first [of three_notes] obtain ns
    where ns: "fst (listNotes three_notes) = json (Notes_body (length ns) ns)"
      and m: "mset ns = mset (registry three_notes)"
    by (elim exE conjE) (rule that)
  from ns have "ns = [note_c, note_b, note_a]"
    unfolding list_three_notes json_def by simp
  with m show ?thesis
    using list_three_notes by simp
qed

text \<open>
  Claim C8, as the code has it. \<^verbatim>\<open>voiceNotes.sort(...)\<close> yields the registry array
  itself, not a copy: read at any later time, after whatever requests, it is the
  registry of that time. A snapshot is what the handler sends: the body is serialised
  from the array before the handler returns, it holds the records as they are then,
  and the answers to later requests come after it and leave it as it is.
\<close>

theorem list_yields_the_registry_array:
  "fst (sort_voiceNotes s) = voiceNotes s \<and>
   stringify (snd (run qs (snd (sort_voiceNotes s)))) (fst (sort_voiceNotes s)) =
     registry (snd (run qs (snd (sort_voiceNotes s)))) \<and>
   fst (listNotes s) =
     json (Notes_body (length (registry (snd (listNotes s)))) (registry (snd (listNotes s)))) \<and>
   fst (run (Get_notes # qs) s) = fst (listNotes s) # fst (run qs (snd (listNotes s)))"
proof -
  have 1: "fst (sort_voiceNotes s) = voiceNotes s"
    by (simp add: sort_voiceNotes_def)
  have v: "voiceNotes (snd (sort_voiceNotes s)) = voiceNotes s"
    by (simp add: sort_voiceNotes_def)
  have 2: "stringify (snd (run qs (snd (sort_voiceNotes s)))) (fst (sort_voiceNotes s)) =
     registry (snd (run qs (snd (sort_voiceNotes s))))"
    unfolding registry_def voiceNotes_run v 1 by (rule refl)
  have 3: "fst (listNotes s) =
     json (Notes_body (length (registry (snd (listNotes s)))) (registry (snd (listNotes s))))"
    by (rule listNotes_response)
  have 4: "fst (run (Get_notes # qs) s) = fst (listNotes s) # fst (run qs (snd (listNotes s)))"
    unfolding run_Cons by (simp add: fst_sent snd_sent)
  show ?thesis
    by (intro conjI 1 2 3 4)
qed

text \<open>
  The claim as it was stated fails for the sequence that \<^verbatim>\<open>sort\<close> returns. With one
  record in the registry it reads as that record; after an upload it has a second
  element, after a mark-downloaded request its record has changed, after a deletion it
  is empty.
\<close>

theorem returned_array_is_live:
  "stringify (snd (sort_voiceNotes one_note)) (fst (sort_voiceNotes one_note)) = [note_a] \<and>
   stringify (snd (handle (upload_at 2000 ''https://cdn/b'' ''voices/b'')
                     (snd (sort_voiceNotes one_note))))
     (fst (sort_voiceNotes one_note)) = [note_a, note_b] \<and>
   stringify (snd (markDownloaded ''1'' (snd (sort_voiceNotes one_note))))
     (fst (sort_voiceNotes one_note)) = [note_a\<lparr>downloaded := True, downloadCount := 1\<rparr>] \<and>
   stringify (snd (deleteNote ''1'' Fulfilled (snd (sort_voiceNotes one_note))))
     (fst (sort_voiceNotes one_note)) = [] \<and>
   stringify (snd (markDownloaded ''1'' (snd (sort_voiceNotes one_note))))
     (fst (sort_voiceNotes one_note)) \<noteq>
   stringify (snd (sort_voiceNotes one_note)) (fst (sort_voiceNotes one_note))"
proof -
  have "[note_a\<lparr>downloaded := True, downloadCount := 1\<rparr>] \<noteq> [note_a]"
    by (simp add: note_a_def)
  then show ?thesis
    unfolding sort_one_note fst_conv snd_conv stringify_one_note upload_b_one_note
      mark_one_note delete_one_note
    by simp
qed

subsection \<open>The user agent of a stored record\<close>

text \<open>
  Claim C9, as the code has it. After a successful upload the record just stored has,
  as its \<^verbatim>\<open>userAgent\<close>: the first 100 code units of the field, so a string of length
  exactly 100, when the field is longer than 100; the field itself when it is not empty
  and no longer than 100; and \<^verbatim>\<open>"unknown"\<close> when the field is absent or is the empty
  string.
\<close>

theorem stored_userAgent:
  assumes "req_file req = Some f"
  shows "(body_userAgent req = Some ua \<and> 100 < length ua \<longrightarrow>
            userAgent (last (registry (snd (upload_voice req now_id (Upload_result url pid) now s))))
              = take 100 ua \<and>
            length (userAgent (last (registry
              (snd (upload_voice req now_id (Upload_result url pid) now s))))) = 100) \<and>
         (body_userAgent req = Some ua \<and> ua \<noteq> [] \<and> length ua \<le> 100 \<longrightarrow>
            userAgent (last (registry (snd (upload_voice req now_id (Upload_result url pid) now s))))
              = ua) \<and>
         (body_userAgent req = None \<or> body_userAgent req = Some [] \<longrightarrow>
            userAgent (last (registry (snd (upload_voice req now_id (Upload_result url pid) now s))))
              = ''unknown'')"
  unfolding stored_record [OF assms]
  by (auto simp: substring_or_unknown_def truthy_def)

text \<open>A field of 101 code units, a short one, and none.\<close>

theorem stored_userAgent_witness:
  "userAgent (last (registry (snd (upload_voice
      (echo_request\<lparr>body_userAgent := Some (replicate 101 CHR ''x'')\<rparr>) 1000
      (Upload_result ''https://cdn/a'' ''voices/a'') 1001 init_server)))) =
     replicate 100 CHR ''x'' \<and>
   userAgent (last (registry (snd (upload_voice
      (echo_request\<lparr>body_userAgent := Some ''Mozilla/5.0''\<rparr>) 1000
      (Upload_result ''https://cdn/a'' ''voices/a'') 1001 init_server)))) = ''Mozilla/5.0'' \<and>
   userAgent (last (registry (snd (upload_voice echo_request 1000
      (Upload_result ''https://cdn/a'' ''voices/a'') 1001 init_server)))) = ''unknown''"
proof -
  have f: "req_file (echo_request\<lparr>body_userAgent := u\<rparr>) = Some \<lparr>buffer = ''RIFF''\<rparr>" for u
    by (simp add: echo_request_def)
  have f0: "req_file echo_request = Some \<lparr>buffer = ''RIFF''\<rparr>"
    by (simp add: echo_request_def)
  have 1: "userAgent (last (registry (snd (upload_voice
      (echo_request\<lparr>body_userAgent := Some (replicate 101 CHR ''x'')\<rparr>) 1000
      (Upload_result ''https://cdn/a'' ''voices/a'') 1001 init_server)))) =
     replicate 100 CHR ''x''"
    using stored_userAgent [OF f, of "Some (replicate 101 CHR ''x'')" "replicate 101 CHR ''x''"
        1000 "''https://cdn/a''" "''voices/a''" 1001 init_server]
    by simp
  have 2: "userAgent (last (registry (snd (upload_voice
      (echo_request\<lparr>body_userAgent := Some ''Mozilla/5.0''\<rparr>) 1000
      (Upload_result ''https://cdn/a'' ''voices/a'') 1001 init_server)))) = ''Mozilla/5.0''"
    using stored_userAgent [OF f, of "Some ''Mozilla/5.0''" "''Mozilla/5.0''"
        1000 "''https://cdn/a''" "''voices/a''" 1001 init_server]
    by simp
  have 3: "userAgent (last (registry (snd (upload_voice echo_request 1000
      (Upload_result ''https://cdn/a'' ''voices/a'') 1001 init_server)))) = ''unknown''"
    using stored_userAgent [OF f0, of "[]"
        1000 "''https://cdn/a''" "''voices/a''" 1001 init_server]
    by (simp add: echo_request_def)
  show ?thesis
    by (intro conjI 1 2 3)
qed

text \<open>
  The claim as it was stated fails for the empty string, which has no more than 100
  code units and is not stored as it is: \<^verbatim>\<open>userAgent ? ... : "unknown"\<close> takes it for
  absent.
\<close>

theorem empty_userAgent_not_kept:
  "userAgent (last (registry (snd (upload_voice
      (echo_request\<lparr>body_userAgent := Some ''''\<rparr>) 1000
      (Upload_result ''https://cdn/a'' ''voices/a'') 1001 init_server)))) = ''unknown'' \<and>
   userAgent (last (registry (snd (upload_voice
      (echo_request\<lparr>body_userAgent := Some ''''\<rparr>) 1000
      (Upload_result ''https://cdn/a'' ''voices/a'') 1001 init_server)))) \<noteq> ''''"
proof -
  have f: "req_file (echo_request\<lparr>body_userAgent := Some ''''\<rparr>) = Some \<lparr>buffer = ''RIFF''\<rparr>"
    by (simp add: echo_request_def)
  show ?thesis
    unfolding stored_record [OF f]
    by (simp add: substring_or_unknown_def truthy_def)
qed

subsection \<open>Identifiers that are not numbers\<close>

text \<open>
  Claim C10. When \<^verbatim>\<open>parseInt\<close> makes nothing of the path parameter, its value is
  \<^verbatim>\<open>NaN\<close>, which \<^verbatim>\<open>===\<close> finds equal to no identifier: the mark-downloaded handler
  and the delete handler answer 404 and return the state unchanged, whatever the
  registry holds. The empty string is such a parameter, and so is every string that
  starts with a letter, hence every string of letters only.
\<close>

theorem unparseable_id_not_found:
  "(parseInt id_param = None \<longrightarrow>
      markDownloaded id_param s =
        (status_json 404 (Error_body ''Voice note not found'' None), s) \<and>
      deleteNote id_param outcome s =
        (status_json 404 (Error_body ''Voice note not found'' None), s)) \<and>
   parseInt [] = None \<and>
   (id_param \<noteq> [] \<and> (\<forall>c \<in> set id_param. is_alpha c) \<longrightarrow> parseInt id_param = None)"
proof (intro conjI impI)
  assume nan: "parseInt id_param = None"
  have "List.find (id_is s None) (read_array s (voiceNotes s)) = None"
    by (simp add: find_None_iff id_is_def)
  then show "markDownloaded id_param s =
      (status_json 404 (Error_body ''Voice note not found'' None), s)"
    using nan by (simp add: markDownloaded_absent)
  have "findIndex (id_is s None) (read_array s (voiceNotes s)) = None"
    by (simp add: findIndex_None id_is_def)
  then show "deleteNote id_param outcome s =
      (status_json 404 (Error_body ''Voice note not found'' None), s)"
    using nan by (simp add: deleteNote_absent)
next
  show "parseInt [] = None"
    by (simp add: parseInt_def)
next
  assume "id_param \<noteq> [] \<and> (\<forall>c \<in> set id_param. is_alpha c)"
  then obtain c cs where "id_param = c # cs" "is_alpha c"
    by (cases id_param) auto
  then show "parseInt id_param = None"
    by (simp add: parseInt_alpha)
qed

text \<open>The parameter \<^verbatim>\<open>abc\<close>, against a registry that holds a record.\<close>

theorem unparseable_id_not_found_witness:
  "parseInt ''abc'' = None \<and>
   markDownloaded ''abc'' one_note =
     (status_json 404 (Error_body ''Voice note not found'' None), one_note) \<and>
   deleteNote ''abc'' Fulfilled one_note =
     (status_json 404 (Error_body ''Voice note not found'' None), one_note)"
proof -
  have a: "''abc'' \<noteq> [] \<and> (\<forall>c \<in> set ''abc''. is_alpha c)"
    by (simp add: is_alpha_def)
  have n: "parseInt ''abc'' = None"
    using unparseable_id_not_found [of "''abc''" one_note Fulfilled] a by blast
  show ?thesis
    using unparseable_id_not_found [of "''abc''" one_note Fulfilled] n by blast
qed

subsection \<open>The scenario of the specification, from end to end\<close>

text \<open>
  A submission with the effect \<^verbatim>\<open>echo\<close> that the remote store accepts is answered with
  the identifier 1 and the URL; the listing shows one note, not downloaded, count 0;
  the mark is answered, and the listing shows the note downloaded, count 1; the
  deletion, the remote store agreeing, is answered, and the listing is empty.
\<close>

theorem end_to_end:
  "fst (run scenario init_server) =
     [json (Upload_body ''Voice note uploaded successfully'' 1 ''https://cdn/a''),
      json (Notes_body 1 [note_a]),
      json (Message_body ''Marked as downloaded''),
      json (Notes_body 1 [note_a\<lparr>downloaded := True, downloadCount := 1\<rparr>]),
      json (Message_body ''Voice note deleted successfully''),
      json (Notes_body 0 [])]"
proof -
  let ?m = "one_note\<lparr>objs := (objs one_note)(0 \<mapsto>
              (deref one_note 0)\<lparr>downloaded := True,
                                   downloadCount := downloadCount (deref one_note 0) + 1\<rparr>)\<rparr>"
  let ?d = "?m\<lparr>cloud_log := cloud_log ?m @ [Destroy (publicId (registry ?m ! 0))],
              arrays := (arrays ?m)(voiceNotes ?m \<mapsto> splice1 0 (read_array ?m (voiceNotes ?m)))\<rparr>"
  have u: "handle (Post_upload echo_request 1000 (Upload_result ''https://cdn/a'' ''voices/a'') 1001)
             init_server =
           ([json (Upload_body ''Voice note uploaded successfully'' 1 ''https://cdn/a'')], one_note)"
    unfolding handle.simps one_note_def
    by (simp add: upload_voice_def echo_request_def init_server_def Let_def)
  have l1: "handle Get_notes one_note = ([json (Notes_body 1 [note_a])], one_note)"
    unfolding handle.simps listNotes_eq one_note_eq by (simp add: read_array_def deref_def)
  have f: "List.find (id_is one_note (parseInt ''1'')) (read_array one_note (voiceNotes one_note))
          = Some 0"
    unfolding parseInt_digit_1 one_note_eq
    by (simp add: read_array_def id_is_def deref_def note_a_def)
  have m: "handle (Post_downloaded ''1'') one_note =
      ([json (Message_body ''Marked as downloaded'')], ?m)"
    unfolding handle.simps markDownloaded_found [OF f] sent.simps by (rule refl)
  have l2: "handle Get_notes ?m =
      ([json (Notes_body 1 [note_a\<lparr>downloaded := True, downloadCount := 1\<rparr>])], ?m)"
    unfolding handle.simps listNotes_eq one_note_eq
    by (simp add: read_array_def deref_def note_a_def)
  have g: "findIndex (id_is ?m (parseInt ''1'')) (read_array ?m (voiceNotes ?m)) = Some 0"
    unfolding parseInt_digit_1 one_note_eq
    by (simp add: read_array_def id_is_def deref_def note_a_def)
  have d: "handle (Delete_note ''1'' Fulfilled) ?m =
      ([json (Message_body ''Voice note deleted successfully'')], ?d)"
    unfolding handle.simps deleteNote_found_fulfilled [OF g] sent.simps by (rule refl)
  have l3: "handle Get_notes ?d = ([json (Notes_body 0 [])], ?d)"
    unfolding handle.simps listNotes_eq one_note_eq
    by (simp add: read_array_def deref_def splice1_def)
  have "run scenario init_server =
     ([json (Upload_body ''Voice note uploaded successfully'' 1 ''https://cdn/a''),
      json (Notes_body 1 [note_a]),
      json (Message_body ''Marked as downloaded''),
      json (Notes_body 1 [note_a\<lparr>downloaded := True, downloadCount := 1\<rparr>]),
      json (Message_body ''Voice note deleted successfully''),
      json (Notes_body 0 [])], ?d)"
    unfolding scenario_def
    by (rule run_Cons_eq [OF u run_Cons_eq [OF l1 run_Cons_eq [OF m run_Cons_eq
          [OF l2 run_Cons_eq [OF d run_Cons_eq [OF l3 run.simps(1)]]]]]])
  then show ?thesis
    by simp
qed

subsection \<open>Path parameters that start with a number\<close>

text \<open>
  \<^verbatim>\<open>parseInt\<close> reads the digits a string starts with and ignores what follows them, so
  \<^verbatim>\<open>1abc\<close>, \<^verbatim>\<open>1.9\<close>, \<^verbatim>\<open>0x1\<close> and \<^verbatim>\<open>1\<close> after a blank all name the record 1.
\<close>

theorem loose_id_parsing:
  "parseInt ''1abc'' = Some 1 \<and> parseInt '' 1'' = Some 1 \<and> parseInt ''0x1'' = Some 1 \<and>
   parseInt ''1.9'' = Some 1 \<and>
   fst (markDownloaded ''1abc'' one_note) = json (Message_body ''Marked as downloaded'')"
proof -
  have p: "parseInt ''1abc'' = Some 1"
    by (simp add: parseInt_def StrWhiteSpaceChar_def is_digit_def digit_value_def)
  have f: "List.find (id_is one_note (parseInt ''1abc''))
             (read_array one_note (voiceNotes one_note)) = Some 0"
    unfolding p one_note_eq by (simp add: read_array_def id_is_def deref_def note_a_def)
  have m: "fst (markDownloaded ''1abc'' one_note) = json (Message_body ''Marked as downloaded'')"
    unfolding markDownloaded_found [OF f] by simp
  have q: "parseInt '' 1'' = Some 1" "parseInt ''0x1'' = Some 1" "parseInt ''1.9'' = Some 1"
    by (simp_all add: parseInt_def StrWhiteSpaceChar_def is_digit_def digit_value_def)
  show ?thesis
    by (intro conjI p q m)
qed

end
